theory Spec2Isabelle
  imports Complex_Main "HOL-Library.Word"
begin

section \<open>JavaScript values\<close>

text \<open>
  A JavaScript string is a sequence of UTF-16 code units. Literals of the source are
  ASCII apart from the canned texts, and are written through \<open>lit\<close>.
\<close>

type_synonym jsstring = "16 word list"

definition lit :: "string \<Rightarrow> jsstring" where
  "lit s = map (\<lambda>c. of_nat (of_char c)) s"

text \<open>
  \<open>String.prototype.trim\<close> removes white space and line terminators from both ends:
  TAB, LF, VT, FF, CR, SP, NBSP, the Unicode space separators, LS, PS and ZWNBSP.
\<close>

definition is_ws :: "16 word \<Rightarrow> bool" where
  "is_ws c = (c \<in> {0x0009, 0x000A, 0x000B, 0x000C, 0x000D, 0x0020, 0x00A0, 0x1680,
      0x2000, 0x2001, 0x2002, 0x2003, 0x2004, 0x2005, 0x2006, 0x2007, 0x2008, 0x2009,
      0x200A, 0x2028, 0x2029, 0x202F, 0x205F, 0x3000, 0xFEFF})"

definition trim :: "jsstring \<Rightarrow> jsstring" where
  "trim s = rev (dropWhile is_ws (rev (dropWhile is_ws s)))"

text \<open>
  Values as they come out of \<open>JSON.parse\<close> and as the component stores them. An object
  is the list of its own properties.
\<close>

datatype jsval =
    JUndefined
  | JNull
  | JBool bool
  | JNum real
  | JStr jsstring
  | JArr "jsval list"
  | JObj "(jsstring \<times> jsval) list"

datatype error =
    FetchRejected    \<comment> \<open>the promise of \<open>fetch\<close> rejects (network failure)\<close>
  | RequestFailed    \<comment> \<open>\<open>throw new Error('Request failed')\<close>\<close>
  | JsonRejected     \<comment> \<open>the promise of \<open>res.json()\<close> rejects (unparsable body)\<close>
  | TypeError        \<comment> \<open>property read on \<open>null\<close>/\<open>undefined\<close>, spread of a non-iterable\<close>

text \<open>
  Property read \<open>v.k\<close>. It throws on \<open>null\<close> and \<open>undefined\<close>; on an object it gives
  the property or \<open>undefined\<close>; on the other values it goes to the prototype, which has
  none of the keys read in this program (\<open>id\<close>, \<open>title\<close>, \<open>last_message_at\<close>, \<open>reply\<close>).
\<close>

fun get_prop :: "jsval \<Rightarrow> jsstring \<Rightarrow> error + jsval" where
  "get_prop JUndefined k = Inl TypeError"
| "get_prop JNull k = Inl TypeError"
| "get_prop (JObj kvs) k = Inr (case map_of kvs k of None \<Rightarrow> JUndefined | Some v \<Rightarrow> v)"
| "get_prop v k = Inr JUndefined"

text \<open>
  Iteration of a string goes by code points: a high surrogate followed by a low one is
  one element.
\<close>

fun code_points :: "jsstring \<Rightarrow> jsstring list" where
  "code_points [] = []"
| "code_points [c] = [[c]]"
| "code_points (c # d # r) =
     (if 0xD800 \<le> c \<and> c \<le> 0xDBFF \<and> 0xDC00 \<le> d \<and> d \<le> 0xDFFF
      then [c, d] # code_points r
      else [c] # code_points (d # r))"

text \<open>Array spread \<open>[...v]\<close>: arrays and strings are iterable, the other values throw.\<close>

fun spread :: "jsval \<Rightarrow> error + jsval list" where
  "spread (JArr xs) = Inr xs"
| "spread (JStr s) = Inr (map JStr (code_points s))"
| "spread v = Inl TypeError"

text \<open>
  What a \<open>fetch\<close> call comes back with: the promise rejects, or there is a response with
  its \<open>ok\<close> flag and the outcome of \<open>res.json()\<close> (\<open>None\<close> when that promise rejects).
\<close>

datatype fetch_result =
    FetchRejects
  | Responds bool "jsval option"

section \<open>Browser objects\<close>

record voice =
  lang :: jsstring
  name :: jsstring

record utterance =
  utter_text :: jsval
  utter_voice :: "voice option"   \<comment> \<open>\<open>None\<close>: the platform default\<close>
  utter_rate :: real
  utter_pitch :: real
  utter_volume :: real

record recognition =
  rec_lang :: jsstring
  interimResults :: bool
  continuous :: bool

record key_event =
  key :: jsstring
  shiftKey :: bool

text \<open>Outcome of the microphone prompt in \<open>ensureMicPermission\<close>.\<close>

datatype mic_outcome =
    NoGetUserMedia   \<comment> \<open>\<open>navigator.mediaDevices.getUserMedia\<close> is absent\<close>
  | MicGranted
  | MicRejected

text \<open>
  The calls the component makes, in program order: the state setters of React and the
  calls into the browser and the backend.
\<close>

datatype effect =
    SetConversations jsval
  | UpdaterThrew error             \<comment> \<open>a functional update of the list threw when React ran it\<close>
  | SetActiveId jsval
  | SetMessages "jsval list"
  | SetInput jsstring
  | SetLoading bool
  | SetVoiceEnabled bool
  | SetListening bool
  | SetMicPermission jsstring
  | SetVoiceStatus jsstring
  | GetConversations               \<comment> \<open>\<open>GET /api/conversations\<close>\<close>
  | PostConversation jsval         \<comment> \<open>\<open>POST /api/conversations\<close> with the title\<close>
  | GetMessages jsval              \<comment> \<open>\<open>GET /api/conversations/{id}/messages\<close>\<close>
  | PostAsk jsstring jsval         \<comment> \<open>\<open>POST /api/ask\<close> with message and conversation id\<close>
  | SynthCancel
  | SynthSpeak utterance
  | NewRecognition recognition
  | RecStart
  | RecStop
  | GetUserMedia
  | PreventDefault

section \<open>Session state\<close>

text \<open>
  The \<open>useState\<close> cells and the two refs of \<open>Chat\<close>, and the trace of the calls made so
  far. \<open>updaterError\<close> holds the exception of a functional update that threw when React
  ran it: React throws it again while rendering, and with no error boundary the
  component is unmounted. \<open>recSupported\<close> and \<open>synthSupported\<close> are computed once per
  mount.
\<close>

record state =
  conversations :: jsval
  activeId :: jsval
  messages :: "jsval list"
  input :: jsstring
  loading :: bool
  voiceEnabled :: bool
  listening :: bool
  micPermission :: jsstring
  voiceStatus :: jsstring
  recognitionRef :: "recognition option"
  voicesRef :: "voice list"
  updaterError :: "error option"
  trace :: "effect list"

record env =
  recSupported :: bool
  synthSupported :: bool

definition initial_state :: state where
  "initial_state = \<lparr> conversations = JArr [], activeId = JNull, messages = [],
     input = [], loading = False, voiceEnabled = True, listening = False,
     micPermission = lit ''unknown'', voiceStatus = [], recognitionRef = None,
     voicesRef = [], updaterError = None, trace = [] \<rparr>"

definition emit :: "effect \<Rightarrow> state \<Rightarrow> state" where
  "emit e s = s\<lparr>trace := trace s @ [e]\<rparr>"

definition setConversations :: "jsval \<Rightarrow> state \<Rightarrow> state" where
  "setConversations v s = emit (SetConversations v) (s\<lparr>conversations := v\<rparr>)"

definition setActiveId :: "jsval \<Rightarrow> state \<Rightarrow> state" where
  "setActiveId v s = emit (SetActiveId v) (s\<lparr>activeId := v\<rparr>)"

definition setMessages :: "jsval list \<Rightarrow> state \<Rightarrow> state" where
  "setMessages v s = emit (SetMessages v) (s\<lparr>messages := v\<rparr>)"

definition setInput :: "jsstring \<Rightarrow> state \<Rightarrow> state" where
  "setInput v s = emit (SetInput v) (s\<lparr>input := v\<rparr>)"

definition setLoading :: "bool \<Rightarrow> state \<Rightarrow> state" where
  "setLoading v s = emit (SetLoading v) (s\<lparr>loading := v\<rparr>)"

definition setVoiceEnabled :: "bool \<Rightarrow> state \<Rightarrow> state" where
  "setVoiceEnabled v s = emit (SetVoiceEnabled v) (s\<lparr>voiceEnabled := v\<rparr>)"

definition setListening :: "bool \<Rightarrow> state \<Rightarrow> state" where
  "setListening v s = emit (SetListening v) (s\<lparr>listening := v\<rparr>)"

definition setMicPermission :: "jsstring \<Rightarrow> state \<Rightarrow> state" where
  "setMicPermission v s = emit (SetMicPermission v) (s\<lparr>micPermission := v\<rparr>)"

definition setVoiceStatus :: "jsstring \<Rightarrow> state \<Rightarrow> state" where
  "setVoiceStatus v s = emit (SetVoiceStatus v) (s\<lparr>voiceStatus := v\<rparr>)"

text \<open>The object literal \<open>{ role: r, content: c }\<close>.\<close>

definition message :: "string \<Rightarrow> jsval \<Rightarrow> jsval" where
  "message r c = JObj [(lit ''role'', JStr (lit r)), (lit ''content'', c)]"

definition greeting :: jsval where
  "greeting = message ''assistant'' (JStr (lit ''Hi! I'm your AI assistant. How can I help today?''))"

definition new_chat_notice :: jsval where
  "new_chat_notice =
     message ''assistant'' (JStr (lit ''New chat started. What would you like to discuss?''))"

definition apology :: jsval where
  "apology =
     message ''assistant'' (JStr (lit ''Sorry, I ran into an issue reaching the brain. Try again.''))"

section \<open>Conversation store\<close>

text \<open>
  The updater \<open>prev => [{ id: data.id, title: data.title, last_message_at:
  data.last_message_at }, ...prev]\<close> that \<open>createConversation\<close> hands to
  \<open>setConversations\<close>: it throws when \<open>data\<close> is \<open>null\<close> and when \<open>prev\<close> is not iterable.
\<close>

definition prepend_conversation :: "jsval \<Rightarrow> jsval \<Rightarrow> error + jsval" where
  "prepend_conversation data prev =
     (case (get_prop data (lit ''id''), get_prop data (lit ''title''),
            get_prop data (lit ''last_message_at''), spread prev) of
        (Inr i, Inr t, Inr l, Inr xs) \<Rightarrow>
          Inr (JArr (JObj [(lit ''id'', i), (lit ''title'', t), (lit ''last_message_at'', l)] # xs))
      | _ \<Rightarrow> Inl TypeError)"

text \<open>
  \<open>setConversations(updater)\<close>: the call itself never throws. React runs the updater on
  the list it holds; an exception of the updater does not reach the caller.
\<close>

definition updateConversations :: "(jsval \<Rightarrow> error + jsval) \<Rightarrow> state \<Rightarrow> state" where
  "updateConversations f s =
     (case f (conversations s) of
        Inr v \<Rightarrow> setConversations v s
      | Inl err \<Rightarrow> emit (UpdaterThrew err) (s\<lparr>updaterError := Some err\<rparr>))"

text \<open>
  \<open>createConversation(title)\<close>: no \<open>try\<close> in its body, so a rejected \<open>fetch\<close> or
  \<open>res.json()\<close> leaves it through the exception; otherwise it returns \<open>data\<close>. The
  result pairs what the call returns or throws with the state it leaves behind.
\<close>

definition createConversation ::
  "jsval \<Rightarrow> fetch_result \<Rightarrow> state \<Rightarrow> (error + jsval) \<times> state" where
  "createConversation title res s =
     (let s1 = emit (PostConversation title) s in
      case res of
        FetchRejects \<Rightarrow> (Inl FetchRejected, s1)
      | Responds ok None \<Rightarrow> (Inl JsonRejected, s1)
      | Responds ok (Some data) \<Rightarrow>
          (Inr data, updateConversations (prepend_conversation data) s1))"

text \<open>
  \<open>loadMessages(conversationId)\<close>: the whole body is inside \<open>try\<close>; the status of the
  response is not looked at.
\<close>

definition loadMessages :: "jsval \<Rightarrow> fetch_result \<Rightarrow> state \<Rightarrow> state" where
  "loadMessages conversationId res s =
     (let s1 = emit (GetMessages conversationId) s in
      case res of
        FetchRejects \<Rightarrow> setMessages [greeting] s1
      | Responds ok None \<Rightarrow> setMessages [greeting] s1
      | Responds ok (Some data) \<Rightarrow>
          (case data of
             JArr xs \<Rightarrow> if length xs > 0 then setMessages xs s1 else setMessages [greeting] s1
           | _ \<Rightarrow> setMessages [greeting] s1))"

text \<open>
  Strict equality \<open>a === b\<close>. Where one side is a primitive value it is equality of
  values (JSON yields no \<open>NaN\<close>). Two arrays or objects are equal when they are one and
  the same object, which a value does not show: \<open>same_ref\<close> says whether they are.
\<close>

definition is_primitive :: "jsval \<Rightarrow> bool" where
  "is_primitive v = (case v of JArr xs \<Rightarrow> False | JObj kvs \<Rightarrow> False | _ \<Rightarrow> True)"

definition strict_eq :: "bool \<Rightarrow> jsval \<Rightarrow> jsval \<Rightarrow> bool" where
  "strict_eq same_ref a b =
     (if is_primitive a \<or> is_primitive b then a = b else same_ref \<and> a = b)"

text \<open>\<open>selectConversation(id)\<close>; \<open>same_ref\<close> is for \<open>id === activeId\<close>.\<close>

definition selectConversation :: "bool \<Rightarrow> jsval \<Rightarrow> fetch_result \<Rightarrow> state \<Rightarrow> state" where
  "selectConversation same_ref i res s =
     (if strict_eq same_ref i (activeId s) then s else loadMessages i res (setActiveId i s))"

text \<open>
  \<open>newConversation()\<close>, the handler of the New button: it calls \<open>createConversation()\<close>
  with no title and has no \<open>try\<close> either. \<open>Some e\<close> is the exception the handler's
  promise rejects with.
\<close>

definition newConversation :: "fetch_result \<Rightarrow> state \<Rightarrow> error option \<times> state" where
  "newConversation res s =
     (case createConversation JUndefined res s of
        (Inl e, s1) \<Rightarrow> (Some e, s1)
      | (Inr created, s1) \<Rightarrow>
          (case get_prop created (lit ''id'') of
             Inl e \<Rightarrow> (Some e, s1)
           | Inr i \<Rightarrow> (None, setMessages [new_chat_notice] (setActiveId i s1))))"

section \<open>Voice output\<close>

text \<open>
  \<open>/A|B|C/i.test(s)\<close> for alternatives that are plain ASCII texts: some alternative occurs
  in \<open>s\<close>, letters compared without case. Without the \<open>u\<close> flag a code unit from 128 on
  never canonicalises to an ASCII one, so comparing after \<open>ascii_upper\<close> is exact.
\<close>

definition ascii_upper :: "16 word \<Rightarrow> 16 word" where
  "ascii_upper c = (if 0x61 \<le> c \<and> c \<le> 0x7A then c - 0x20 else c)"

fun ci_prefix :: "jsstring \<Rightarrow> jsstring \<Rightarrow> bool" where
  "ci_prefix [] s = True"
| "ci_prefix (p # ps) [] = False"
| "ci_prefix (p # ps) (c # cs) = (ascii_upper p = ascii_upper c \<and> ci_prefix ps cs)"

fun ci_search :: "jsstring \<Rightarrow> jsstring \<Rightarrow> bool" where
  "ci_search pat [] = ci_prefix pat []"
| "ci_search pat (c # cs) = (ci_prefix pat (c # cs) \<or> ci_search pat cs)"

definition regex_test :: "string list \<Rightarrow> jsstring \<Rightarrow> bool" where
  "regex_test alts s = list_ex (\<lambda>a. ci_search (lit a) s) alts"

text \<open>
  The voice \<open>speakText\<close> picks: \<open>voices.find(...) || voices[0]\<close>. The alternatives for the
  name are \<open>Female|Google|Natural\<close> in \<open>Chat.jsx\<close>; the second copy of the component adds
  \<open>Roger\<close> and is otherwise the same function.
\<close>

definition preferred_voice :: "string list \<Rightarrow> voice list \<Rightarrow> voice option" where
  "preferred_voice names vs =
     (case find (\<lambda>v. regex_test [''en-US'', ''en_GB''] (lang v) \<and> regex_test names (name v)) vs of
        Some v \<Rightarrow> Some v
      | None \<Rightarrow> (case vs of [] \<Rightarrow> None | v # _ \<Rightarrow> Some v))"

definition name_alternatives :: "string list" where
  "name_alternatives = [''Female'', ''Google'', ''Natural'']"

definition name_alternatives_roger :: "string list" where
  "name_alternatives_roger = [''Female'', ''Google'', ''Natural'', ''Roger'']"

text \<open>
  \<open>speakText(text)\<close>. \<open>cancel\<close> and \<open>speak\<close> are called inside \<open>try { } catch {}\<close>:
  when \<open>cancel\<close> throws, \<open>speak\<close> is not reached and the exception is dropped.
\<close>

definition speakText_with :: "string list \<Rightarrow> env \<Rightarrow> bool \<Rightarrow> jsval \<Rightarrow> state \<Rightarrow> state" where
  "speakText_with names e cancel_throws txt s =
     (if \<not> synthSupported e then s
      else
        let utter = \<lparr> utter_text = txt, utter_voice = preferred_voice names (voicesRef s),
                      utter_rate = 1, utter_pitch = 1, utter_volume = 1 \<rparr>
        in if cancel_throws then emit SynthCancel s
           else emit (SynthSpeak utter) (emit SynthCancel s))"

definition speakText :: "env \<Rightarrow> bool \<Rightarrow> jsval \<Rightarrow> state \<Rightarrow> state" where
  "speakText = speakText_with name_alternatives"

section \<open>Message exchange\<close>

text \<open>
  \<open>sendMessage()\<close> up to its first \<open>await\<close>: the guard, the optimistic update and the
  call of \<open>fetch\<close>. \<open>None\<close> is the early return; otherwise the trimmed text and the state
  in which the request is in flight.
\<close>

definition sendMessage_start :: "state \<Rightarrow> (jsstring \<times> state) option" where
  "sendMessage_start s =
     (let text = trim (input s) in
      if text = [] \<or> loading s then None
      else
        let next = messages s @ [message ''user'' (JStr text)];
            s1 = setLoading True (setInput [] (setMessages next s))
        in Some (text, emit (PostAsk text (activeId s)) s1))"

text \<open>The value of \<open>data.reply\<close>, or the exception that takes control to \<open>catch\<close>.\<close>

definition ask_reply :: "fetch_result \<Rightarrow> error + jsval" where
  "ask_reply res =
     (case res of
        FetchRejects \<Rightarrow> Inl FetchRejected
      | Responds ok body \<Rightarrow>
          if \<not> ok then Inl RequestFailed
          else (case body of
                  None \<Rightarrow> Inl JsonRejected
                | Some data \<Rightarrow> get_prop data (lit ''reply'')))"

text \<open>The inner \<open>try { ... } catch {}\<close> that refreshes the list.\<close>

definition refresh_list :: "fetch_result \<Rightarrow> state \<Rightarrow> state" where
  "refresh_list res s =
     (let s1 = emit GetConversations s in
      case res of
        FetchRejects \<Rightarrow> s1
      | Responds ok None \<Rightarrow> s1
      | Responds ok (Some list) \<Rightarrow> setConversations list s1)"

text \<open>
  The rest of \<open>sendMessage\<close>, from the response on. \<open>ve\<close> is \<open>voiceEnabled\<close> as the
  closure of the call holds it.
\<close>

definition sendMessage_finish ::
  "env \<Rightarrow> fetch_result \<Rightarrow> fetch_result \<Rightarrow> bool \<Rightarrow> bool \<Rightarrow> state \<Rightarrow> state" where
  "sendMessage_finish e ask refresh cancel_throws ve s =
     setLoading False
       (case ask_reply ask of
          Inl err \<Rightarrow> setMessages (messages s @ [apology]) s
        | Inr r \<Rightarrow>
            let s1 = setMessages (messages s @ [message ''assistant'' r]) s;
                s2 = refresh_list refresh s1
            in if ve then speakText e cancel_throws r s2 else s2)"

definition sendMessage ::
  "env \<Rightarrow> fetch_result \<Rightarrow> fetch_result \<Rightarrow> bool \<Rightarrow> state \<Rightarrow> state" where
  "sendMessage e ask refresh cancel_throws s =
     (case sendMessage_start s of
        None \<Rightarrow> s
      | Some (text, s1) \<Rightarrow> sendMessage_finish e ask refresh cancel_throws (voiceEnabled s) s1)"

text \<open>\<open>handleKey(e)\<close>, the \<open>onKeyDown\<close> handler of the text area.\<close>

definition handleKey ::
  "env \<Rightarrow> fetch_result \<Rightarrow> fetch_result \<Rightarrow> bool \<Rightarrow> key_event \<Rightarrow> state \<Rightarrow> state" where
  "handleKey e ask refresh cancel_throws ev s =
     (if key ev = lit ''Enter'' \<and> \<not> shiftKey ev
      then sendMessage e ask refresh cancel_throws (emit PreventDefault s)
      else s)"

section \<open>Voice input\<close>

text \<open>\<open>ensureMicPermission()\<close>: the answer and the state after it.\<close>

definition ensureMicPermission :: "mic_outcome \<Rightarrow> state \<Rightarrow> bool \<times> state" where
  "ensureMicPermission mic s =
     (case mic of
        NoGetUserMedia \<Rightarrow> (True, s)
      | MicGranted \<Rightarrow> (True, setMicPermission (lit ''granted'') (emit GetUserMedia s))
      | MicRejected \<Rightarrow>
          (False,
           setVoiceStatus
             (lit ''Microphone permission blocked. Please allow access in your browser settings.'')
             (setMicPermission (lit ''denied'') (emit GetUserMedia s))))"

text \<open>The instance \<open>toggleListening\<close> builds: \<open>new SR()\<close> with its three settings.\<close>

definition new_recognition :: recognition where
  "new_recognition = \<lparr> rec_lang = lit ''en-US'', interimResults = True, continuous = True \<rparr>"

text \<open>
  \<open>toggleListening()\<close>. \<open>start_throws\<close> says whether \<open>recognitionRef.current.start()\<close>
  throws, which the last \<open>try\<close> catches.
\<close>

definition toggleListening :: "env \<Rightarrow> mic_outcome \<Rightarrow> bool \<Rightarrow> state \<Rightarrow> state" where
  "toggleListening e mic start_throws s =
     (if \<not> recSupported e
      then setVoiceStatus (lit ''Speech recognition is not supported in this browser.'') s
      else
        let s1 = (case recognitionRef s of
                    None \<Rightarrow> (emit (NewRecognition new_recognition) s)
                              \<lparr>recognitionRef := Some new_recognition\<rparr>
                  | Some r \<Rightarrow> s)
        in if listening s then setListening False (emit RecStop s1)
           else
             (case ensureMicPermission mic s1 of
                (False, s2) \<Rightarrow> s2
              | (True, s2) \<Rightarrow>
                  if start_throws
                  then setVoiceStatus
                         (lit ''Could not start speech recognition. Make sure only one tab is listening.'')
                         (setListening False (emit RecStart s2))
                  else setListening True (setVoiceStatus (lit ''Listening...'') (emit RecStart s2))))"

text \<open>
  The three handlers set on the instance. An event carries \<open>resultIndex\<close> and, for each
  result, the transcript of its first alternative.
\<close>

definition onresult :: "nat \<Rightarrow> jsstring list \<Rightarrow> state \<Rightarrow> state" where
  "onresult resultIndex results s = setInput (concat (drop resultIndex results)) s"

definition onend :: "state \<Rightarrow> state" where
  "onend s = setListening False s"

definition onerror :: "jsstring \<Rightarrow> state \<Rightarrow> state" where
  "onerror err s =
     setVoiceStatus
       (if err = lit ''not-allowed'' then lit ''Microphone permission denied.''
        else lit ''Speech recognition error. Try again.'')
       (setListening False s)"

section \<open>A session\<close>

text \<open>
  What can happen to a mounted component, each event with the outcomes of the calls it
  makes. The handlers of a recognition instance fire only once the instance exists, and
  nothing happens any more once a functional update has thrown.
\<close>

datatype event =
    Toggle mic_outcome bool
  | RecResult nat "jsstring list"
  | RecEnd
  | RecError jsstring
  | Typed jsstring
  | KeyDown key_event fetch_result fetch_result bool
  | SendClicked fetch_result fetch_result bool
  | Selected bool jsval fetch_result
  | NewClicked fetch_result
  | VoiceChecked bool
  | VoicesChanged "voice list"
  | PermissionChanged jsstring

definition step :: "env \<Rightarrow> state \<Rightarrow> event \<Rightarrow> state" where
  "step e s ev =
     (if updaterError s \<noteq> None then s
      else case ev of
        Toggle mic start_throws \<Rightarrow> toggleListening e mic start_throws s
      | RecResult i rs \<Rightarrow> (if recognitionRef s = None then s else onresult i rs s)
      | RecEnd \<Rightarrow> (if recognitionRef s = None then s else onend s)
      | RecError err \<Rightarrow> (if recognitionRef s = None then s else onerror err s)
      | Typed v \<Rightarrow> setInput v s
      | KeyDown k ask refresh ct \<Rightarrow> handleKey e ask refresh ct k s
      | SendClicked ask refresh ct \<Rightarrow> sendMessage e ask refresh ct s
      | Selected same_ref i res \<Rightarrow> selectConversation same_ref i res s
      | NewClicked res \<Rightarrow> snd (newConversation res s)
      | VoiceChecked b \<Rightarrow> setVoiceEnabled b s
      | VoicesChanged vs \<Rightarrow> (if synthSupported e then s\<lparr>voicesRef := vs\<rparr> else s)
      | PermissionChanged p \<Rightarrow> setMicPermission p s)"

definition run :: "env \<Rightarrow> event list \<Rightarrow> state \<Rightarrow> state" where
  "run e evs s = foldl (step e) s evs"

text \<open>How many recognition instances a trace has created.\<close>

definition is_new_recognition :: "effect \<Rightarrow> bool" where
  "is_new_recognition x = (case x of NewRecognition r \<Rightarrow> True | _ \<Rightarrow> False)"

definition instances_created :: "state \<Rightarrow> nat" where
  "instances_created s = length (filter is_new_recognition (trace s))"

section \<open>Notions used in the statements\<close>

text \<open>
  An \<open>ask\<close> call that fails: the promise of \<open>fetch\<close> rejects, the response is not OK, or
  its body does not parse.
\<close>

definition ask_failed :: "fetch_result \<Rightarrow> bool" where
  "ask_failed res =
     (case res of FetchRejects \<Rightarrow> True | Responds ok body \<Rightarrow> \<not> ok \<or> body = None)"

text \<open>The calls of the list refresh and of \<open>speakText\<close>, as they appear in a trace.\<close>

definition refresh_calls :: "fetch_result \<Rightarrow> effect list" where
  "refresh_calls res =
     GetConversations # (case res of Responds ok (Some l) \<Rightarrow> [SetConversations l] | _ \<Rightarrow> [])"

definition speak_calls :: "env \<Rightarrow> bool \<Rightarrow> jsval \<Rightarrow> voice list \<Rightarrow> effect list" where
  "speak_calls e cancel_throws txt vs =
     (if \<not> synthSupported e then []
      else if cancel_throws then [SynthCancel]
      else [SynthCancel,
            SynthSpeak \<lparr> utter_text = txt, utter_voice = preferred_voice name_alternatives vs,
                         utter_rate = 1, utter_pitch = 1, utter_volume = 1 \<rparr>])"

text \<open>Concrete inputs: a fresh session with \<open>"  Hello "\<close> typed, and a backend that answers.\<close>

definition s_hello :: state where
  "s_hello = initial_state\<lparr>input := lit ''  Hello ''\<rparr>"

definition ask_hi_there :: fetch_result where
  "ask_hi_there = Responds True (Some (JObj [(lit ''reply'', JStr (lit ''Hi there''))]))"

definition env_voice :: env where
  "env_voice = \<lparr> recSupported = True, synthSupported = True \<rparr>"

text \<open>
  A failed request in the sense of the specification: the promise of \<open>fetch\<close> rejects,
  the response has an error status, or its body does not parse.
\<close>

definition request_failed :: "fetch_result \<Rightarrow> bool" where
  "request_failed res =
     (case res of FetchRejects \<Rightarrow> True | Responds ok body \<Rightarrow> \<not> ok \<or> body = None)"

text \<open>
  The part of it that reaches a \<open>catch\<close> where the status is not tested: the promise of
  \<open>fetch\<close> or of \<open>json()\<close> rejects.
\<close>

definition promise_rejects :: "fetch_result \<Rightarrow> bool" where
  "promise_rejects res = (case res of FetchRejects \<Rightarrow> True | Responds ok body \<Rightarrow> body = None)"

text \<open>\<open>happens_before P Q tr\<close>: some call with \<open>P\<close> is followed, later in \<open>tr\<close>, by one with \<open>Q\<close>.\<close>

fun happens_before :: "(effect \<Rightarrow> bool) \<Rightarrow> (effect \<Rightarrow> bool) \<Rightarrow> effect list \<Rightarrow> bool" where
  "happens_before P Q [] = False"
| "happens_before P Q (x # xs) = ((P x \<and> list_ex Q xs) \<or> happens_before P Q xs)"

definition is_speak :: "effect \<Rightarrow> bool" where
  "is_speak x = (case x of SynthSpeak u \<Rightarrow> True | _ \<Rightarrow> False)"

definition is_refresh :: "effect \<Rightarrow> bool" where
  "is_refresh x = (x = GetConversations)"

definition is_array :: "jsval \<Rightarrow> bool" where
  "is_array v = (case v of JArr xs \<Rightarrow> True | _ \<Rightarrow> False)"

definition enter_key :: "bool \<Rightarrow> key_event" where
  "enter_key shift = \<lparr> key = lit ''Enter'', shiftKey = shift \<rparr>"

text \<open>Voices as browsers list them: the language is a BCP 47 tag.\<close>

definition voice_de :: voice where
  "voice_de = \<lparr> lang = lit ''de-DE'', name = lit ''Anna'' \<rparr>"

definition voice_gb :: voice where
  "voice_gb = \<lparr> lang = lit ''en-GB'', name = lit ''Google UK English Female'' \<rparr>"

definition voice_us :: voice where
  "voice_us = \<lparr> lang = lit ''en-US'', name = lit ''Google US English'' \<rparr>"

text \<open>
  The recognition instances a trace has created are as many as the ref holds: none
  while it is empty, one from then on.
\<close>

definition rec_inv :: "state \<Rightarrow> bool" where
  "rec_inv s = (instances_created s = (if recognitionRef s = None then 0 else 1))"

definition unsupported_text :: jsstring where
  "unsupported_text = lit ''Speech recognition is not supported in this browser.''"

definition env_plain :: env where
  "env_plain = \<lparr> recSupported = False, synthSupported = False \<rparr>"

definition three_toggles :: "event list" where
  "three_toggles = [Toggle MicGranted False, Toggle MicGranted False, Toggle MicGranted False]"

text \<open>
  A session in use: two conversations in the list, the first one active with two
  messages on screen, and \<open>"  Hello "\<close> typed.
\<close>

definition conversation_entry :: "string \<Rightarrow> string \<Rightarrow> string \<Rightarrow> jsval" where
  "conversation_entry i title stamp =
     JObj [(lit ''id'', JStr (lit i)), (lit ''title'', JStr (lit title)),
           (lit ''last_message_at'', JStr (lit stamp))]"

definition two_conversations :: jsval where
  "two_conversations =
     JArr [conversation_entry ''c1'' ''Trip plan'' ''2024-05-01T10:00:00Z'',
           conversation_entry ''c2'' ''Recipes'' ''2024-04-30T08:30:00Z'']"

definition s_chat :: state where
  "s_chat = initial_state\<lparr>conversations := two_conversations, activeId := JStr (lit ''c1''),
     messages := [message ''user'' (JStr (lit ''Where to?'')),
                  message ''assistant'' (JStr (lit ''Lisbon.''))],
     input := lit ''  Hello ''\<rparr>"

definition history_c2 :: "jsval list" where
  "history_c2 = [message ''user'' (JStr (lit ''Soup?'')),
                 message ''assistant'' (JStr (lit ''Try minestrone.''))]"

text \<open>Bodies of error responses: an object, and an array with one error entry.\<close>

definition error_body :: jsval where
  "error_body = JObj [(lit ''detail'', JStr (lit ''Internal Server Error''))]"

definition error_entry :: jsval where
  "error_entry = JObj [(lit ''error'', JStr (lit ''database unavailable''))]"


section \<open>Properties\<close>

lemmas setters =
  emit_def setConversations_def setActiveId_def setMessages_def setInput_def
  setLoading_def setVoiceEnabled_def setListening_def setMicPermission_def setVoiceStatus_def

lemma trim_hello: "trim (input s_hello) = lit ''Hello''"
  by (simp add: s_hello_def trim_def lit_def is_ws_def)

lemma loading_hello: "\<not> loading s_hello"
  by (simp add: s_hello_def initial_state_def)

lemma fresh_hello: "messages s_hello = [] \<and> trace s_hello = [] \<and> activeId s_hello = JNull"
  by (simp add: s_hello_def initial_state_def)

lemma trim_chat: "trim (input s_chat) = lit ''Hello''"
  by (simp add: s_chat_def trim_def lit_def is_ws_def)

lemma fresh_chat:
  "\<not> loading s_chat \<and> voiceEnabled s_chat \<and> voicesRef s_chat = [] \<and> trace s_chat = []
   \<and> activeId s_chat = JStr (lit ''c1'') \<and> conversations s_chat = two_conversations
   \<and> messages s_chat = [message ''user'' (JStr (lit ''Where to?'')),
                          message ''assistant'' (JStr (lit ''Lisbon.''))]"
  by (simp add: s_chat_def initial_state_def)

subsection \<open>Sending\<close>

lemma refresh_list_fields:
  "trace (refresh_list r s) = trace s @ refresh_calls r"
  "messages (refresh_list r s) = messages s"
  "input (refresh_list r s) = input s"
  "voicesRef (refresh_list r s) = voicesRef s"
  by (simp_all add: refresh_list_def refresh_calls_def setters Let_def
      split: fetch_result.splits option.splits)

lemma speakText_fields:
  "trace (speakText e ct r s) = trace s @ speak_calls e ct r (voicesRef s)"
  "messages (speakText e ct r s) = messages s"
  "input (speakText e ct r s) = input s"
  by (simp_all add: speakText_def speakText_with_def speak_calls_def setters)

lemma sendMessage_finish_shape:
  "\<exists>m rest. messages (sendMessage_finish e ask refresh ct ve s1) = messages s1 @ [m]
      \<and> trace (sendMessage_finish e ask refresh ct ve s1) = trace s1 @ rest
      \<and> input (sendMessage_finish e ask refresh ct ve s1) = input s1"
proof (cases "ask_reply ask")
  case (Inl err)
  then show ?thesis
    by (simp add: sendMessage_finish_def setters)
next
  case (Inr r)
  then show ?thesis
    by (simp add: sendMessage_finish_def setters Let_def refresh_list_fields speakText_fields)
qed

text \<open>
  The trace of the scenario of the specification: \<open>"Hello"\<close> sent from a fresh session,
  the backend answering \<open>{reply: "Hi there"}\<close> and an empty conversation list.
\<close>

lemma trace_hello:
  "trace (sendMessage env_voice ask_hi_there (Responds True (Some (JArr []))) False s_hello) =
     [SetMessages [message ''user'' (JStr (lit ''Hello''))],
      SetInput [], SetLoading True, PostAsk (lit ''Hello'') JNull,
      SetMessages [message ''user'' (JStr (lit ''Hello'')),
                   message ''assistant'' (JStr (lit ''Hi there''))],
      GetConversations, SetConversations (JArr []),
      SynthCancel,
      SynthSpeak \<lparr> utter_text = JStr (lit ''Hi there''), utter_voice = None,
                   utter_rate = 1, utter_pitch = 1, utter_volume = 1 \<rparr>,
      SetLoading False]"
  by (simp add: sendMessage_def sendMessage_start_def sendMessage_finish_def setters Let_def
        refresh_list_def speakText_def speakText_with_def trim_hello fresh_hello loading_hello
        ask_hi_there_def ask_reply_def env_voice_def preferred_voice_def)
    (simp add: s_hello_def initial_state_def lit_def)

lemma messages_hello:
  "messages (sendMessage env_voice ask_hi_there (Responds True (Some (JArr []))) False s_hello) =
     [message ''user'' (JStr (lit ''Hello'')), message ''assistant'' (JStr (lit ''Hi there''))]"
  by (simp add: sendMessage_def sendMessage_start_def sendMessage_finish_def setters Let_def
        refresh_list_def speakText_def speakText_with_def trim_hello fresh_hello loading_hello
        ask_hi_there_def ask_reply_def)
    (simp add: lit_def)

text \<open>
  C1. When the trimmed input is not empty and no exchange is in flight, \<open>sendMessage\<close>
  reaches its \<open>fetch\<close> call having appended exactly one user message with the trimmed
  text to the history, cleared the input and set \<open>loading\<close>, and goes on from that
  state: whatever the backend does, its trace starts with the three setter calls
  followed by the \<open>ask\<close> request, its history is the old one, the user message and one
  more message, and the input stays cleared. When the trimmed input is empty or
  \<open>loading\<close> holds, \<open>sendMessage\<close> returns the state it was given.
\<close>

theorem sendMessage_optimistic_append:
  "(trim (input s) \<noteq> [] \<and> \<not> loading s \<longrightarrow>
      sendMessage_start s =
        Some (trim (input s),
              s\<lparr>messages := messages s @ [message ''user'' (JStr (trim (input s)))],
                 input := [], loading := True,
                 trace := trace s @
                   [SetMessages (messages s @ [message ''user'' (JStr (trim (input s)))]),
                    SetInput [], SetLoading True, PostAsk (trim (input s)) (activeId s)]\<rparr>)
    \<and> sendMessage e ask refresh ct s =
        sendMessage_finish e ask refresh ct (voiceEnabled s)
          (s\<lparr>messages := messages s @ [message ''user'' (JStr (trim (input s)))],
             input := [], loading := True,
             trace := trace s @
               [SetMessages (messages s @ [message ''user'' (JStr (trim (input s)))]),
                SetInput [], SetLoading True, PostAsk (trim (input s)) (activeId s)]\<rparr>)
    \<and> (\<exists>rest. trace (sendMessage e ask refresh ct s) =
          trace s @
          [SetMessages (messages s @ [message ''user'' (JStr (trim (input s)))]),
           SetInput [], SetLoading True, PostAsk (trim (input s)) (activeId s)] @ rest)
    \<and> (\<exists>m. messages (sendMessage e ask refresh ct s) =
          messages s @ [message ''user'' (JStr (trim (input s))), m])
    \<and> input (sendMessage e ask refresh ct s) = [])
   \<and> (trim (input s) = [] \<or> loading s \<longrightarrow> sendMessage e ask refresh ct s = s)"
proof (intro conjI impI)
  assume "trim (input s) = [] \<or> loading s"
  then show "sendMessage e ask refresh ct s = s"
    by (auto simp: sendMessage_def sendMessage_start_def)
next
  assume g: "trim (input s) \<noteq> [] \<and> \<not> loading s"
  let ?s1 = "s\<lparr>messages := messages s @ [message ''user'' (JStr (trim (input s)))],
                 input := [], loading := True,
                 trace := trace s @
                   [SetMessages (messages s @ [message ''user'' (JStr (trim (input s)))]),
                    SetInput [], SetLoading True, PostAsk (trim (input s)) (activeId s)]\<rparr>"
  from g show st: "sendMessage_start s = Some (trim (input s), ?s1)"
    by (simp add: sendMessage_start_def setters Let_def)
  then show fin: "sendMessage e ask refresh ct s =
      sendMessage_finish e ask refresh ct (voiceEnabled s) ?s1"
    by (simp add: sendMessage_def)
  obtain m rest where
    sh: "messages (sendMessage_finish e ask refresh ct (voiceEnabled s) ?s1) = messages ?s1 @ [m]"
        "trace (sendMessage_finish e ask refresh ct (voiceEnabled s) ?s1) = trace ?s1 @ rest"
        "input (sendMessage_finish e ask refresh ct (voiceEnabled s) ?s1) = input ?s1"
    using sendMessage_finish_shape [of e ask refresh ct "voiceEnabled s" ?s1] by blast
  from sh(2) show "\<exists>rest. trace (sendMessage e ask refresh ct s) =
          trace s @
          [SetMessages (messages s @ [message ''user'' (JStr (trim (input s)))]),
           SetInput [], SetLoading True, PostAsk (trim (input s)) (activeId s)] @ rest"
    unfolding fin by simp
  from sh(1) show "\<exists>m. messages (sendMessage e ask refresh ct s) =
          messages s @ [message ''user'' (JStr (trim (input s))), m]"
    unfolding fin by simp
  from sh(3) show "input (sendMessage e ask refresh ct s) = []"
    unfolding fin by simp
qed

theorem sendMessage_optimistic_append_witness:
  "trim (input s_hello) \<noteq> [] \<and> \<not> loading s_hello
   \<and> sendMessage_start s_hello =
        Some (lit ''Hello'',
              s_hello\<lparr>messages := [message ''user'' (JStr (lit ''Hello''))],
                 input := [], loading := True,
                 trace := [SetMessages [message ''user'' (JStr (lit ''Hello''))],
                    SetInput [], SetLoading True, PostAsk (lit ''Hello'') JNull]\<rparr>)
   \<and> messages (sendMessage env_voice ask_hi_there (Responds True (Some (JArr []))) False s_hello) =
        [message ''user'' (JStr (lit ''Hello'')), message ''assistant'' (JStr (lit ''Hi there''))]
   \<and> take 4 (trace (sendMessage env_voice ask_hi_there (Responds True (Some (JArr []))) False
                      s_hello)) =
        [SetMessages [message ''user'' (JStr (lit ''Hello''))],
         SetInput [], SetLoading True, PostAsk (lit ''Hello'') JNull]
   \<and> input (sendMessage env_voice ask_hi_there (Responds True (Some (JArr []))) False s_hello) = []
   \<and> sendMessage env_voice ask_hi_there (Responds True (Some (JArr []))) False s_hello \<noteq> s_hello
   \<and> trim (input initial_state) = []
   \<and> sendMessage env_voice ask_hi_there FetchRejects False initial_state = initial_state
   \<and> loading (s_hello\<lparr>loading := True\<rparr>)
   \<and> sendMessage env_voice ask_hi_there FetchRejects False (s_hello\<lparr>loading := True\<rparr>)
        = s_hello\<lparr>loading := True\<rparr>"
proof -
  have a: "trim (input s_hello) \<noteq> []" by (simp add: trim_hello lit_def)
  have b: "trim (input initial_state) = []" by (simp add: initial_state_def trim_def)
  have c: "sendMessage env_voice ask_hi_there (Responds True (Some (JArr []))) False s_hello
             \<noteq> s_hello"
    using messages_hello fresh_hello by auto
  note sent = sendMessage_optimistic_append
                [of s_hello env_voice ask_hi_there "Responds True (Some (JArr []))" False]
  from sent a loading_hello
  have "sendMessage_start s_hello =
        Some (trim (input s_hello),
              s_hello\<lparr>messages :=
                        messages s_hello @ [message ''user'' (JStr (trim (input s_hello)))],
                 input := [], loading := True,
                 trace := trace s_hello @
                   [SetMessages
                      (messages s_hello @ [message ''user'' (JStr (trim (input s_hello)))]),
                    SetInput [], SetLoading True,
                    PostAsk (trim (input s_hello)) (activeId s_hello)]\<rparr>)"
    by blast
  then have st: "sendMessage_start s_hello =
        Some (lit ''Hello'',
              s_hello\<lparr>messages := [message ''user'' (JStr (lit ''Hello''))],
                 input := [], loading := True,
                 trace := [SetMessages [message ''user'' (JStr (lit ''Hello''))],
                    SetInput [], SetLoading True, PostAsk (lit ''Hello'') JNull]\<rparr>)"
    by (simp add: trim_hello fresh_hello)
  from sent a loading_hello
  have inp: "input (sendMessage env_voice ask_hi_there (Responds True (Some (JArr []))) False
                      s_hello) = []"
    by blast
  have tk: "take 4 (trace (sendMessage env_voice ask_hi_there (Responds True (Some (JArr [])))
                             False s_hello)) =
        [SetMessages [message ''user'' (JStr (lit ''Hello''))],
         SetInput [], SetLoading True, PostAsk (lit ''Hello'') JNull]"
    by (simp add: trace_hello)
  from b sendMessage_optimistic_append [of initial_state env_voice ask_hi_there FetchRejects False]
  have n1: "sendMessage env_voice ask_hi_there FetchRejects False initial_state = initial_state"
    by blast
  have l: "loading (s_hello\<lparr>loading := True\<rparr>)" by simp
  from l sendMessage_optimistic_append
           [of "s_hello\<lparr>loading := True\<rparr>" env_voice ask_hi_there FetchRejects False]
  have n2: "sendMessage env_voice ask_hi_there FetchRejects False (s_hello\<lparr>loading := True\<rparr>)
              = s_hello\<lparr>loading := True\<rparr>"
    by blast
  from a loading_hello st messages_hello tk inp c b n1 l n2 show ?thesis
    by (intro conjI)
qed

text \<open>
  C2. When the \<open>ask\<close> call fails (rejected \<open>fetch\<close>, response not OK, or unparsable
  body), \<open>sendMessage\<close> ends with exactly the user message and one fixed apology appended,
  in that order, the user message kept, and \<open>loading\<close> false again.
\<close>

theorem sendMessage_failure_apology:
  assumes "trim (input s) \<noteq> []" and "\<not> loading s" and "ask_failed ask"
  shows "sendMessage e ask refresh ct s =
           s\<lparr>messages := messages s @ [message ''user'' (JStr (trim (input s))), apology],
              input := [], loading := False,
              trace := trace s @
                [SetMessages (messages s @ [message ''user'' (JStr (trim (input s)))]),
                 SetInput [], SetLoading True, PostAsk (trim (input s)) (activeId s),
                 SetMessages (messages s @ [message ''user'' (JStr (trim (input s))), apology]),
                 SetLoading False]\<rparr>"
proof -
  from assms(3) have "\<exists>err. ask_reply ask = Inl err"
    by (cases ask) (auto simp: ask_failed_def ask_reply_def)
  then obtain err where "ask_reply ask = Inl err" ..
  with assms(1,2) show ?thesis
    by (simp add: sendMessage_def sendMessage_start_def sendMessage_finish_def setters Let_def)
qed

theorem sendMessage_failure_apology_witness:
  "trim (input s_hello) \<noteq> [] \<and> \<not> loading s_hello \<and> ask_failed (Responds False None)
   \<and> sendMessage env_voice (Responds False None) FetchRejects False s_hello =
       s_hello\<lparr>messages := [message ''user'' (JStr (lit ''Hello'')), apology],
          input := [], loading := False,
          trace := [SetMessages [message ''user'' (JStr (lit ''Hello''))],
                 SetInput [], SetLoading True, PostAsk (lit ''Hello'') JNull,
                 SetMessages [message ''user'' (JStr (lit ''Hello'')), apology],
                 SetLoading False]\<rparr>"
proof -
  have a: "trim (input s_hello) \<noteq> []" by (simp add: trim_hello lit_def)
  have b: "ask_failed (Responds False None)" by (simp add: ask_failed_def)
  show ?thesis
    using sendMessage_failure_apology [OF a loading_hello b, of env_voice FetchRejects False]
      a b fresh_hello loading_hello
    by (simp add: trim_hello)
qed

text \<open>
  C3 as stated has the reply spoken before the list is refreshed. In the scenario the
  request for the list is in the trace before the call of \<open>speak\<close>, and no call of
  \<open>speak\<close> precedes it.
\<close>

theorem sendMessage_speak_before_refresh_counterexample:
  "\<not> happens_before is_speak is_refresh
       (trace (sendMessage env_voice ask_hi_there (Responds True (Some (JArr []))) False s_hello))
   \<and> happens_before is_refresh is_speak
       (trace (sendMessage env_voice ask_hi_there (Responds True (Some (JArr []))) False s_hello))"
  unfolding trace_hello by (simp add: is_speak_def is_refresh_def)

text \<open>
  C3, amended. When the \<open>ask\<close> call succeeds with reply \<open>r\<close>, the history at completion
  is the prior history plus the user message and one assistant message with content
  \<open>r\<close>, \<open>loading\<close> ends false, and the success steps come in the order: append the
  reply, refresh the conversation list, then, if voice output is enabled, speak the
  reply.
\<close>

theorem sendMessage_success_order:
  assumes "trim (input s) \<noteq> []" and "\<not> loading s"
    and "ask = Responds True (Some data)" and "get_prop data (lit ''reply'') = Inr r"
  shows "messages (sendMessage e ask refresh ct s) =
           messages s @ [message ''user'' (JStr (trim (input s))), message ''assistant'' r]
       \<and> loading (sendMessage e ask refresh ct s) = False
       \<and> trace (sendMessage e ask refresh ct s) =
           trace s @
           [SetMessages (messages s @ [message ''user'' (JStr (trim (input s)))]),
            SetInput [], SetLoading True, PostAsk (trim (input s)) (activeId s),
            SetMessages (messages s @ [message ''user'' (JStr (trim (input s))),
                                       message ''assistant'' r])]
           @ refresh_calls refresh
           @ (if voiceEnabled s then speak_calls e ct r (voicesRef s) else [])
           @ [SetLoading False]"
proof -
  from assms(3,4) have "ask_reply ask = Inr r"
    by (simp add: ask_reply_def)
  with assms(1,2) show ?thesis
    by (simp add: sendMessage_def sendMessage_start_def sendMessage_finish_def setters Let_def
        refresh_list_def refresh_calls_def speak_calls_def speakText_def speakText_with_def
        split: fetch_result.splits option.splits)
qed

theorem sendMessage_success_order_witness:
  "trim (input s_hello) \<noteq> [] \<and> \<not> loading s_hello
   \<and> get_prop (JObj [(lit ''reply'', JStr (lit ''Hi there''))]) (lit ''reply'')
        = Inr (JStr (lit ''Hi there''))
   \<and> messages (sendMessage env_voice ask_hi_there (Responds True (Some (JArr []))) False s_hello) =
        [message ''user'' (JStr (lit ''Hello'')), message ''assistant'' (JStr (lit ''Hi there''))]
   \<and> loading (sendMessage env_voice ask_hi_there (Responds True (Some (JArr []))) False s_hello)
        = False
   \<and> trace (sendMessage env_voice ask_hi_there (Responds True (Some (JArr []))) False s_hello) =
        [SetMessages [message ''user'' (JStr (lit ''Hello''))],
         SetInput [], SetLoading True, PostAsk (lit ''Hello'') JNull,
         SetMessages [message ''user'' (JStr (lit ''Hello'')),
                      message ''assistant'' (JStr (lit ''Hi there''))],
         GetConversations, SetConversations (JArr []),
         SynthCancel,
         SynthSpeak \<lparr> utter_text = JStr (lit ''Hi there''), utter_voice = None,
                      utter_rate = 1, utter_pitch = 1, utter_volume = 1 \<rparr>,
         SetLoading False]"
proof -
  have a: "trim (input s_hello) \<noteq> []" by (simp add: trim_hello lit_def)
  have c: "get_prop (JObj [(lit ''reply'', JStr (lit ''Hi there''))]) (lit ''reply'')
             = Inr (JStr (lit ''Hi there''))"
    by simp
  have d: "voiceEnabled s_hello \<and> synthSupported env_voice \<and> voicesRef s_hello = []"
    by (simp add: s_hello_def initial_state_def env_voice_def)
  have e: "preferred_voice name_alternatives [] = None"
    by (simp add: preferred_voice_def)
  show ?thesis
    using sendMessage_success_order
            [OF a loading_hello ask_hi_there_def c, of env_voice "Responds True (Some (JArr []))" False]
      a c d e fresh_hello loading_hello
    by (simp add: trim_hello speak_calls_def refresh_calls_def)
qed

text \<open>
  A list refresh whose promise rejects is dropped by the inner \<open>try\<close>: the reply stays
  appended and nothing else is, the conversation list is as it was, \<open>speakText\<close> still
  runs on the reply when voice output is enabled, and \<open>loading\<close> ends false.
\<close>

lemma sendMessage_refresh_rejection_dropped:
  assumes "trim (input s) \<noteq> []" and "\<not> loading s"
    and "ask = Responds True (Some data)" and "get_prop data (lit ''reply'') = Inr r"
    and "promise_rejects refresh"
  shows "messages (sendMessage e ask refresh ct s) =
           messages s @ [message ''user'' (JStr (trim (input s))), message ''assistant'' r]
       \<and> conversations (sendMessage e ask refresh ct s) = conversations s
       \<and> loading (sendMessage e ask refresh ct s) = False
       \<and> trace (sendMessage e ask refresh ct s) =
           trace s @
           [SetMessages (messages s @ [message ''user'' (JStr (trim (input s)))]),
            SetInput [], SetLoading True, PostAsk (trim (input s)) (activeId s),
            SetMessages (messages s @ [message ''user'' (JStr (trim (input s))),
                                       message ''assistant'' r]),
            GetConversations]
           @ (if voiceEnabled s then speak_calls e ct r (voicesRef s) else [])
           @ [SetLoading False]
       \<and> (voiceEnabled s \<and> synthSupported e \<and> \<not> ct \<longrightarrow>
            SynthSpeak \<lparr> utter_text = r,
                         utter_voice = preferred_voice name_alternatives (voicesRef s),
                         utter_rate = 1, utter_pitch = 1, utter_volume = 1 \<rparr>
              \<in> set (trace (sendMessage e ask refresh ct s)))"
proof -
  from assms(3,4) have "ask_reply ask = Inr r"
    by (simp add: ask_reply_def)
  moreover from assms(5) have "refresh_list refresh = emit GetConversations"
    by (cases refresh) (auto simp: promise_rejects_def refresh_list_def fun_eq_iff)
  ultimately show ?thesis using assms(1,2)
    by (simp add: sendMessage_def sendMessage_start_def sendMessage_finish_def setters Let_def
        speak_calls_def speakText_def speakText_with_def)
qed

lemma sendMessage_refresh_rejection_dropped_hello:
  "trim (input s_hello) \<noteq> [] \<and> \<not> loading s_hello \<and> promise_rejects FetchRejects
   \<and> messages (sendMessage env_voice ask_hi_there FetchRejects False s_hello) =
        [message ''user'' (JStr (lit ''Hello'')), message ''assistant'' (JStr (lit ''Hi there''))]
   \<and> conversations (sendMessage env_voice ask_hi_there FetchRejects False s_hello) = JArr []
   \<and> loading (sendMessage env_voice ask_hi_there FetchRejects False s_hello) = False
   \<and> SynthSpeak \<lparr> utter_text = JStr (lit ''Hi there''), utter_voice = None,
                   utter_rate = 1, utter_pitch = 1, utter_volume = 1 \<rparr>
       \<in> set (trace (sendMessage env_voice ask_hi_there FetchRejects False s_hello))"
proof -
  have a: "trim (input s_hello) \<noteq> []" by (simp add: trim_hello lit_def)
  have b: "promise_rejects FetchRejects" by (simp add: promise_rejects_def)
  have c: "get_prop (JObj [(lit ''reply'', JStr (lit ''Hi there''))]) (lit ''reply'')
             = Inr (JStr (lit ''Hi there''))"
    by simp
  have d: "voiceEnabled s_hello \<and> synthSupported env_voice \<and> voicesRef s_hello = []
             \<and> conversations s_hello = JArr []"
    by (simp add: s_hello_def initial_state_def env_voice_def)
  have e: "preferred_voice name_alternatives [] = None"
    by (simp add: preferred_voice_def)
  show ?thesis
    using sendMessage_refresh_rejection_dropped
            [OF a loading_hello ask_hi_there_def c b, of env_voice False]
      a b d e fresh_hello loading_hello
    by (simp add: trim_hello speak_calls_def)
qed

text \<open>
  C10. A list refresh that fails with an error status and a body that parses is not
  dropped: the status is not tested, so after a successful \<open>ask\<close> the error body of a
  500 response replaces the conversation list. The reply stays appended, no apology is
  added and \<open>loading\<close> ends false.
\<close>

theorem sendMessage_refresh_error_replaces_list:
  "request_failed (Responds False (Some error_body))
   \<and> conversations s_chat = two_conversations
   \<and> conversations (sendMessage env_voice ask_hi_there (Responds False (Some error_body)) False
                      s_chat) = error_body
   \<and> error_body \<noteq> two_conversations
   \<and> messages (sendMessage env_voice ask_hi_there (Responds False (Some error_body)) False
                  s_chat) =
       messages s_chat @ [message ''user'' (JStr (lit ''Hello'')),
                          message ''assistant'' (JStr (lit ''Hi there''))]
   \<and> \<not> loading (sendMessage env_voice ask_hi_there (Responds False (Some error_body)) False
                    s_chat)"
proof -
  have a: "request_failed (Responds False (Some error_body))"
    by (simp add: request_failed_def)
  have b: "error_body \<noteq> two_conversations"
    by (simp add: error_body_def two_conversations_def)
  have c: "trim (input s_chat) \<noteq> []" by (simp add: trim_chat lit_def)
  have d: "ask_reply ask_hi_there = Inr (JStr (lit ''Hi there''))"
    by (simp add: ask_hi_there_def ask_reply_def)
  show ?thesis
    using a b c d fresh_chat
    by (simp add: sendMessage_def sendMessage_start_def sendMessage_finish_def setters Let_def
        refresh_list_def speakText_def speakText_with_def trim_chat)
qed

theorem sendMessage_refresh_error_replaces_list_witness:
  "request_failed (Responds False (Some error_body))
   \<and> conversations (sendMessage env_voice ask_hi_there (Responds False (Some error_body)) False
                      s_chat) \<noteq> conversations s_chat"
  using sendMessage_refresh_error_replaces_list by simp

subsection \<open>Keyboard\<close>

text \<open>
  C6. A plain Enter (Shift not held) makes \<open>handleKey\<close> call \<open>preventDefault\<close> and then
  \<open>sendMessage\<close>; Enter with Shift held leaves the handler without either call, so the
  state and the trace are untouched and the text area inserts its newline.
\<close>

theorem handleKey_enter:
  "(key ev = lit ''Enter'' \<and> \<not> shiftKey ev \<longrightarrow>
      handleKey e ask refresh ct ev s = sendMessage e ask refresh ct (emit PreventDefault s))
   \<and> (key ev = lit ''Enter'' \<and> shiftKey ev \<longrightarrow> handleKey e ask refresh ct ev s = s)"
  by (simp add: handleKey_def)

theorem handleKey_enter_witness:
  "key (enter_key False) = lit ''Enter'' \<and> \<not> shiftKey (enter_key False)
   \<and> handleKey env_voice ask_hi_there FetchRejects False (enter_key False) s_hello =
       sendMessage env_voice ask_hi_there FetchRejects False (emit PreventDefault s_hello)
   \<and> key (enter_key True) = lit ''Enter'' \<and> shiftKey (enter_key True)
   \<and> handleKey env_voice ask_hi_there FetchRejects False (enter_key True) s_hello = s_hello
   \<and> sendMessage env_voice ask_hi_there FetchRejects False s_hello \<noteq> s_hello"
proof -
  have m: "messages (sendMessage env_voice ask_hi_there FetchRejects False s_hello) \<noteq> messages s_hello"
    using trim_hello loading_hello
    by (simp add: sendMessage_def sendMessage_start_def sendMessage_finish_def Let_def setters
        lit_def ask_hi_there_def ask_reply_def refresh_list_def speakText_def speakText_with_def
        split: if_splits)
  then have n: "sendMessage env_voice ask_hi_there FetchRejects False s_hello \<noteq> s_hello"
    by auto
  show ?thesis
    using handleKey_enter [of "enter_key False" env_voice ask_hi_there FetchRejects False s_hello]
      handleKey_enter [of "enter_key True" env_voice ask_hi_there FetchRejects False s_hello] n
    by (simp add: enter_key_def)
qed

subsection \<open>Conversation store\<close>

text \<open>
  What \<open>loadMessages\<close> shows depends on the body alone: the fetched array when it is not
  empty, and the single canned greeting when the array is empty, when the body is not
  an array, and when the promise of \<open>json()\<close> or of \<open>fetch\<close> rejects. The history it
  leaves is never empty, and no other cell changes.
\<close>

lemma loadMessages_never_blank:
  "(xs \<noteq> [] \<longrightarrow> messages (loadMessages i (Responds ok (Some (JArr xs))) s) = xs)
   \<and> messages (loadMessages i (Responds ok (Some (JArr []))) s) = [greeting]
   \<and> (\<not> is_array d \<longrightarrow> messages (loadMessages i (Responds ok (Some d)) s) = [greeting])
   \<and> messages (loadMessages i (Responds ok None) s) = [greeting]
   \<and> messages (loadMessages i FetchRejects s) = [greeting]
   \<and> messages (loadMessages i res s) \<noteq> []
   \<and> loadMessages i res s =
       s\<lparr>messages := messages (loadMessages i res s),
          trace := trace s @ [GetMessages i, SetMessages (messages (loadMessages i res s))]\<rparr>"
  by (auto simp: loadMessages_def setters is_array_def Let_def
      split: fetch_result.splits option.splits jsval.splits)

text \<open>
  C4. A request for the history that fails with an error status and an array as its
  body does not give the greeting: \<open>loadMessages\<close> has no test of the status, and the
  one entry of the error body of a 500 response becomes the history on screen.
\<close>

theorem loadMessages_shows_failed_response:
  "request_failed (Responds False (Some (JArr [error_entry])))
   \<and> messages (loadMessages (JStr (lit ''c2'')) (Responds False (Some (JArr [error_entry])))
                  s_chat) = [error_entry]
   \<and> [error_entry] \<noteq> [greeting]
   \<and> messages (loadMessages (JStr (lit ''c2'')) (Responds False (Some error_body)) s_chat)
       = [greeting]
   \<and> messages (loadMessages (JStr (lit ''c2'')) (Responds True (Some (JArr history_c2))) s_chat)
       = history_c2"
  by (simp add: request_failed_def loadMessages_def setters error_entry_def error_body_def
      greeting_def message_def history_c2_def)

theorem loadMessages_shows_failed_response_witness:
  "request_failed (Responds False (Some (JArr [error_entry])))
   \<and> messages (loadMessages (JStr (lit ''c2'')) (Responds False (Some (JArr [error_entry])))
                  s_chat) \<noteq> [greeting]"
  using loadMessages_shows_failed_response by simp



text \<open>
  C5. The policy that every network failure is caught locally does not hold for
  \<open>createConversation\<close>: when its \<open>fetch\<close> rejects, the exception leaves
  \<open>createConversation\<close> and, through it, the handler \<open>newConversation\<close>; no message is
  substituted and no status text is set.
\<close>

theorem newConversation_rejection_escapes:
  "createConversation t FetchRejects s = (Inl FetchRejected, emit (PostConversation t) s)
   \<and> newConversation FetchRejects s = (Some FetchRejected, emit (PostConversation JUndefined) s)
   \<and> messages (snd (newConversation FetchRejects s)) = messages s
   \<and> voiceStatus (snd (newConversation FetchRejects s)) = voiceStatus s"
  by (simp add: newConversation_def createConversation_def setters)

subsection \<open>Voice output\<close>

lemma lang_gb: "\<not> regex_test [''en-US'', ''en_GB''] (lang voice_gb)"
  by (simp add: regex_test_def voice_gb_def lit_def ascii_upper_def)

lemma lang_de: "\<not> regex_test [''en-US'', ''en_GB''] (lang voice_de)"
  by (simp add: regex_test_def voice_de_def lit_def ascii_upper_def)

lemma lang_us: "regex_test [''en-US'', ''en_GB''] (lang voice_us)"
  by (simp add: regex_test_def voice_us_def lit_def ascii_upper_def)

lemma name_us: "regex_test name_alternatives (name voice_us)"
  by (simp add: regex_test_def voice_us_def lit_def ascii_upper_def name_alternatives_def)

lemma name_gb: "regex_test name_alternatives (name voice_gb)"
  by (simp add: regex_test_def voice_gb_def lit_def ascii_upper_def name_alternatives_def)

text \<open>
  C7. With the cached voices \<open>Anna\<close> (\<open>de-DE\<close>) and \<open>Google UK English Female\<close>
  (\<open>en-GB\<close>), a British English voice with a branded, female name exists, yet
  \<open>speakText\<close> speaks with \<open>Anna\<close>: the alternative for Great Britain is written
  \<open>en_GB\<close> and does not match the tag \<open>en-GB\<close>. A voice tagged \<open>en-US\<close> is picked.
\<close>

theorem speakText_passes_over_en_GB:
  "regex_test name_alternatives (name voice_gb)
   \<and> \<not> regex_test [''en-US'', ''en_GB''] (lang voice_gb)
   \<and> preferred_voice name_alternatives [voice_de, voice_gb] = Some voice_de
   \<and> preferred_voice name_alternatives_roger [voice_de, voice_gb] = Some voice_de
   \<and> preferred_voice name_alternatives [voice_de, voice_us] = Some voice_us
   \<and> trace (speakText env_voice False (JStr (lit ''Hi there''))
              (initial_state\<lparr>voicesRef := [voice_de, voice_gb]\<rparr>)) =
       [SynthCancel,
        SynthSpeak \<lparr> utter_text = JStr (lit ''Hi there''), utter_voice = Some voice_de,
                     utter_rate = 1, utter_pitch = 1, utter_volume = 1 \<rparr>]"
proof -
  have a: "preferred_voice names [voice_de, voice_gb] = Some voice_de" for names
    by (simp add: preferred_voice_def lang_gb lang_de)
  have b: "preferred_voice name_alternatives [voice_de, voice_us] = Some voice_us"
    by (simp add: preferred_voice_def lang_de lang_us name_us)
  have c: "synthSupported env_voice" by (simp add: env_voice_def)
  show ?thesis
    by (simp add: a b c name_gb lang_gb speakText_def speakText_with_def setters
        initial_state_def)
qed

text \<open>
  The rest of \<open>speakText\<close>: nothing happens without synthesis; otherwise \<open>cancel\<close>
  comes before \<open>speak\<close>, rate, pitch and volume are 1, and the voice is the first match,
  else the first cached voice, else none.
\<close>

lemma speakText_shape:
  "(\<not> synthSupported e \<longrightarrow> speakText e ct txt s = s)
   \<and> (synthSupported e \<and> \<not> ct \<longrightarrow>
        speakText e ct txt s =
          s\<lparr>trace := trace s @
              [SynthCancel,
               SynthSpeak \<lparr> utter_text = txt,
                            utter_voice = preferred_voice name_alternatives (voicesRef s),
                            utter_rate = 1, utter_pitch = 1, utter_volume = 1 \<rparr>]\<rparr>)"
  by (simp add: speakText_def speakText_with_def setters)

lemma preferred_voice_cases:
  "preferred_voice names [] = None"
  "find (\<lambda>v. regex_test [''en-US'', ''en_GB''] (lang v) \<and> regex_test names (name v)) (v # vs)
     = None \<Longrightarrow> preferred_voice names (v # vs) = Some v"
  "find (\<lambda>v. regex_test [''en-US'', ''en_GB''] (lang v) \<and> regex_test names (name v)) vs
     = Some w \<Longrightarrow> preferred_voice names vs = Some w"
  by (simp_all add: preferred_voice_def)

subsection \<open>Voice input\<close>

lemma emit_rec [simp]:
  "recognitionRef (emit x s) = recognitionRef s"
  "listening (emit x s) = listening s"
  "instances_created (emit x s) = instances_created s + (if is_new_recognition x then 1 else 0)"
  by (simp_all add: emit_def instances_created_def)

lemma setters_rec [simp]:
  "recognitionRef (setConversations c s) = recognitionRef s"
  "recognitionRef (setActiveId a s) = recognitionRef s"
  "recognitionRef (setMessages m s) = recognitionRef s"
  "recognitionRef (setInput i s) = recognitionRef s"
  "recognitionRef (setLoading b s) = recognitionRef s"
  "recognitionRef (setVoiceEnabled b s) = recognitionRef s"
  "recognitionRef (setListening b s) = recognitionRef s"
  "recognitionRef (setMicPermission p s) = recognitionRef s"
  "recognitionRef (setVoiceStatus v s) = recognitionRef s"
  by (simp_all add: setters)

lemma setters_created [simp]:
  "instances_created (setConversations c s) = instances_created s"
  "instances_created (setActiveId a s) = instances_created s"
  "instances_created (setMessages m s) = instances_created s"
  "instances_created (setInput i s) = instances_created s"
  "instances_created (setLoading b s) = instances_created s"
  "instances_created (setVoiceEnabled b s) = instances_created s"
  "instances_created (setListening b s) = instances_created s"
  "instances_created (setMicPermission p s) = instances_created s"
  "instances_created (setVoiceStatus v s) = instances_created s"
  by (simp_all add: setters instances_created_def is_new_recognition_def)

lemma setters_listening [simp]:
  "listening (setConversations c s) = listening s"
  "listening (setActiveId a s) = listening s"
  "listening (setMessages m s) = listening s"
  "listening (setInput i s) = listening s"
  "listening (setLoading b s) = listening s"
  "listening (setVoiceEnabled b s) = listening s"
  "listening (setListening b s) = b"
  "listening (setMicPermission p s) = listening s"
  "listening (setVoiceStatus v s) = listening s"
  by (simp_all add: setters)

lemma created_upd [simp]:
  "instances_created (s\<lparr>recognitionRef := r\<rparr>) = instances_created s"
  "instances_created (s\<lparr>voicesRef := vs\<rparr>) = instances_created s"
  by (simp_all add: instances_created_def)

lemma not_new [simp]:
  "\<not> is_new_recognition (PostConversation t)" "\<not> is_new_recognition (GetMessages i)"
  "\<not> is_new_recognition (PostAsk m a)" "\<not> is_new_recognition GetConversations"
  "\<not> is_new_recognition SynthCancel" "\<not> is_new_recognition (SynthSpeak u)"
  "\<not> is_new_recognition RecStart" "\<not> is_new_recognition RecStop"
  "\<not> is_new_recognition GetUserMedia" "\<not> is_new_recognition PreventDefault"
  "is_new_recognition (NewRecognition r)"
  by (simp_all add: is_new_recognition_def)

lemma speakText_rec [simp]:
  "recognitionRef (speakText e ct r s) = recognitionRef s"
  "instances_created (speakText e ct r s) = instances_created s"
  "listening (speakText e ct r s) = listening s"
  by (simp_all add: speakText_def speakText_with_def Let_def)

lemma refresh_list_rec [simp]:
  "recognitionRef (refresh_list res s) = recognitionRef s"
  "instances_created (refresh_list res s) = instances_created s"
  "listening (refresh_list res s) = listening s"
  by (simp_all add: refresh_list_def Let_def split: fetch_result.splits option.splits)

lemma sendMessage_rec [simp]:
  "recognitionRef (sendMessage e ask refresh ct s) = recognitionRef s"
  "instances_created (sendMessage e ask refresh ct s) = instances_created s"
  "listening (sendMessage e ask refresh ct s) = listening s"
  by (simp_all add: sendMessage_def sendMessage_start_def sendMessage_finish_def Let_def
      split: sum.splits)

lemma loadMessages_rec [simp]:
  "recognitionRef (loadMessages i res s) = recognitionRef s"
  "instances_created (loadMessages i res s) = instances_created s"
  "listening (loadMessages i res s) = listening s"
  by (simp_all add: loadMessages_def Let_def
      split: fetch_result.splits option.splits jsval.splits)

lemma selectConversation_rec [simp]:
  "recognitionRef (selectConversation sr i res s) = recognitionRef s"
  "instances_created (selectConversation sr i res s) = instances_created s"
  "listening (selectConversation sr i res s) = listening s"
  by (simp_all add: selectConversation_def)

lemma updateConversations_rec [simp]:
  "recognitionRef (updateConversations f s) = recognitionRef s"
  "instances_created (updateConversations f s) = instances_created s"
  "listening (updateConversations f s) = listening s"
  by (simp_all add: updateConversations_def instances_created_def is_new_recognition_def
      setters split: sum.splits)

lemma createConversation_rec [simp]:
  "recognitionRef (snd (createConversation t res s)) = recognitionRef s"
  "instances_created (snd (createConversation t res s)) = instances_created s"
  "listening (snd (createConversation t res s)) = listening s"
  by (simp_all add: createConversation_def Let_def
      split: fetch_result.splits option.splits)

lemma newConversation_rec [simp]:
  "recognitionRef (snd (newConversation res s)) = recognitionRef s"
  "instances_created (snd (newConversation res s)) = instances_created s"
  "listening (snd (newConversation res s)) = listening s"
proof -
  obtain r s1 where c: "createConversation JUndefined res s = (r, s1)"
    by (cases "createConversation JUndefined res s")
  then have "snd (createConversation JUndefined res s) = s1" by simp
  then have s1: "recognitionRef s1 = recognitionRef s" "instances_created s1 = instances_created s"
    "listening s1 = listening s"
    using createConversation_rec [of JUndefined res s] by simp_all
  show "recognitionRef (snd (newConversation res s)) = recognitionRef s"
    "instances_created (snd (newConversation res s)) = instances_created s"
    "listening (snd (newConversation res s)) = listening s"
    using c s1 by (simp_all add: newConversation_def split: sum.splits)
qed

lemma handleKey_rec [simp]:
  "recognitionRef (handleKey e ask refresh ct k s) = recognitionRef s"
  "instances_created (handleKey e ask refresh ct k s) = instances_created s"
  "listening (handleKey e ask refresh ct k s) = listening s"
  by (simp_all add: handleKey_def)

lemma ensureMicPermission_rec [simp]:
  "recognitionRef (snd (ensureMicPermission mic s)) = recognitionRef s"
  "instances_created (snd (ensureMicPermission mic s)) = instances_created s"
  "listening (snd (ensureMicPermission mic s)) = listening s"
  by (simp_all add: ensureMicPermission_def split: mic_outcome.splits)

lemma toggleListening_inv: "rec_inv s \<Longrightarrow> rec_inv (toggleListening e mic st s)"
proof -
  assume inv: "rec_inv s"
  obtain ok where m: "\<And>s1. ensureMicPermission mic s1 = (ok, snd (ensureMicPermission mic s1))"
    by (cases mic) (auto simp: ensureMicPermission_def)
  show ?thesis
  proof (cases "recognitionRef s")
    case None
    with inv show ?thesis
      unfolding rec_inv_def toggleListening_def Let_def
      by (subst (1 2) m) (simp split: bool.splits)
  next
    case (Some r)
    with inv show ?thesis
      unfolding rec_inv_def toggleListening_def Let_def
      by (subst (1 2) m) (simp split: bool.splits)
  qed
qed

lemma step_inv: "rec_inv s \<Longrightarrow> rec_inv (step e s ev)"
  by (cases ev) (simp_all add: step_def toggleListening_inv, simp_all add: rec_inv_def onresult_def onend_def onerror_def)

lemma run_inv: "rec_inv s \<Longrightarrow> rec_inv (run e evs s)"
  unfolding run_def by (induction evs arbitrary: s) (simp_all add: step_inv)

lemma toggle_unsupported:
  "\<not> recSupported e \<Longrightarrow> toggleListening e mic st s = setVoiceStatus unsupported_text s"
  by (simp add: toggleListening_def unsupported_text_def)

lemma step_unsupported:
  "\<not> recSupported e \<Longrightarrow> \<not> listening s \<Longrightarrow> recognitionRef s = None \<Longrightarrow>
   \<not> listening (step e s ev) \<and> recognitionRef (step e s ev) = None"
  by (cases ev) (simp_all add: step_def toggle_unsupported onresult_def onend_def onerror_def)

lemma run_unsupported:
  "\<not> recSupported e \<Longrightarrow> \<not> listening s \<Longrightarrow> recognitionRef s = None \<Longrightarrow>
   \<not> listening (run e evs s) \<and> recognitionRef (run e evs s) = None"
  unfolding run_def
proof (induction evs arbitrary: s)
  case Nil
  then show ?case by simp
next
  case (Cons ev evs)
  from step_unsupported [OF Cons.prems, of ev]
  show ?case using Cons.IH [of "step e s ev"] Cons.prems(1) by simp
qed

lemma toggle_fresh:
  "toggleListening env_voice MicGranted False initial_state =
     initial_state\<lparr>listening := True, micPermission := lit ''granted'',
       voiceStatus := lit ''Listening...'', recognitionRef := Some new_recognition,
       trace := [NewRecognition new_recognition, GetUserMedia, SetMicPermission (lit ''granted''),
                 RecStart, SetVoiceStatus (lit ''Listening...''), SetListening True]\<rparr>"
  by (simp add: toggleListening_def ensureMicPermission_def setters env_voice_def
      initial_state_def)

lemma three_toggles_created:
  "instances_created (run env_voice three_toggles initial_state) = 1"
  by (simp add: run_def three_toggles_def step_def toggle_fresh)
    (simp add: toggleListening_def ensureMicPermission_def setters env_voice_def
      initial_state_def instances_created_def is_new_recognition_def)

text \<open>
  C8. Without speech recognition, \<open>toggleListening\<close> leaves \<open>listening\<close> as it is, sets
  the status text and creates no instance, and in a session that starts idle the flag
  is never true and no instance is ever created. In any session that starts without an
  instance, at most one is ever created; once the ref holds an instance, a toggle keeps
  it and creates none.
\<close>

theorem toggleListening_single_instance:
  "(\<not> recSupported e \<longrightarrow>
      listening (toggleListening e mic st s) = listening s
    \<and> voiceStatus (toggleListening e mic st s) = unsupported_text
    \<and> recognitionRef (toggleListening e mic st s) = recognitionRef s
    \<and> trace (toggleListening e mic st s) = trace s @ [SetVoiceStatus unsupported_text])
   \<and> (\<not> recSupported e \<and> \<not> listening s0 \<and> recognitionRef s0 = None \<and> instances_created s0 = 0 \<longrightarrow>
      \<not> listening (run e evs s0) \<and> recognitionRef (run e evs s0) = None
    \<and> instances_created (run e evs s0) = 0)
   \<and> (recognitionRef s0 = None \<and> instances_created s0 = 0 \<longrightarrow>
      instances_created (run e evs s0) \<le> 1)
   \<and> (recSupported e \<and> recognitionRef s = Some r \<longrightarrow>
      recognitionRef (toggleListening e mic st s) = Some r
    \<and> instances_created (toggleListening e mic st s) = instances_created s)"
proof (intro conjI impI)
  assume "recognitionRef s0 = None \<and> instances_created s0 = 0"
  then have "rec_inv s0" by (simp add: rec_inv_def)
  then have "rec_inv (run e evs s0)" by (rule run_inv)
  then show "instances_created (run e evs s0) \<le> 1" by (simp add: rec_inv_def split: if_splits)
next
  assume a: "\<not> recSupported e \<and> \<not> listening s0 \<and> recognitionRef s0 = None \<and> instances_created s0 = 0"
  then have u: "\<not> listening (run e evs s0) \<and> recognitionRef (run e evs s0) = None"
    using run_unsupported [of e s0 evs] by simp
  from a have "rec_inv s0" by (simp add: rec_inv_def)
  then have "rec_inv (run e evs s0)" by (rule run_inv)
  with u show "\<not> listening (run e evs s0)" "recognitionRef (run e evs s0) = None"
    "instances_created (run e evs s0) = 0"
    by (simp_all add: rec_inv_def)
next
  assume a: "recSupported e \<and> recognitionRef s = Some r"
  obtain ok where m: "\<And>s1. ensureMicPermission mic s1 = (ok, snd (ensureMicPermission mic s1))"
    by (cases mic) (auto simp: ensureMicPermission_def)
  from a show "recognitionRef (toggleListening e mic st s) = Some r"
    unfolding toggleListening_def Let_def by (subst m) (simp split: bool.splits)
  from a show "instances_created (toggleListening e mic st s) = instances_created s"
    unfolding toggleListening_def Let_def by (subst m) (simp split: bool.splits)
qed (simp_all add: toggle_unsupported, simp_all add: setters)

theorem toggleListening_single_instance_witness:
  "\<not> recSupported env_plain
   \<and> \<not> listening initial_state \<and> recognitionRef initial_state = None
   \<and> instances_created initial_state = 0
   \<and> listening (toggleListening env_plain MicGranted False initial_state) = False
   \<and> voiceStatus (toggleListening env_plain MicGranted False initial_state) = unsupported_text
   \<and> \<not> listening (run env_plain three_toggles initial_state)
   \<and> instances_created (run env_plain three_toggles initial_state) = 0
   \<and> instances_created (run env_voice three_toggles initial_state) = 1
   \<and> recSupported env_voice
   \<and> recognitionRef (toggleListening env_voice MicGranted False initial_state)
        = Some new_recognition
   \<and> recognitionRef (toggleListening env_voice MicGranted False
         (toggleListening env_voice MicGranted False initial_state)) = Some new_recognition"
proof -
  have a: "\<not> recSupported env_plain" "recSupported env_voice"
    by (simp_all add: env_plain_def env_voice_def)
  have b: "\<not> listening initial_state" "recognitionRef initial_state = None"
    "instances_created initial_state = 0"
    by (simp_all add: initial_state_def instances_created_def)
  have c: "recognitionRef (toggleListening env_voice MicGranted False initial_state)
             = Some new_recognition"
    by (simp add: toggle_fresh)
  show ?thesis
    using toggleListening_single_instance
            [where e = env_plain and mic = MicGranted and st = False and s = initial_state
               and ?s0.0 = initial_state and evs = three_toggles and r = new_recognition]
      toggleListening_single_instance
            [where e = env_voice and mic = MicGranted and st = False
               and s = "toggleListening env_voice MicGranted False initial_state"
               and ?s0.0 = initial_state and evs = three_toggles and r = new_recognition]
      a b c three_toggles_created
    by simp
qed

end
